theory Spec2Isabelle
  imports Main "HOL-Library.Word" "HOL-Library.Signed_Division"
begin

section \<open>Translator configuration (pkg/otlp/metrics/config.go)\<close>

text \<open>
  Go's \<open>int64\<close> is a 64-bit word read as two's complement. Comparisons are the signed
  ones (\<open>\<le>s\<close>, \<open><s\<close>); Go's \<open>/\<close> truncates towards zero, which is \<open>sdiv\<close> on the
  signed readings, wrapped back into 64 bits.
\<close>

type_synonym int64 = "64 word"

definition int64_div :: "int64 \<Rightarrow> int64 \<Rightarrow> int64" where
  "int64_div a b = word_of_int (sint a sdiv sint b)"

text \<open>
  \<open>fmt.Errorf\<close> builds an error from a format string and its arguments. The error value
  keeps both, unrendered.
\<close>

datatype fmt_arg = ArgInt int64 | ArgStr string

datatype error = Errorf string "fmt_arg list"

text \<open>\<open>type HistogramMode string\<close> and \<open>type NumberMode string\<close>, with their constants.\<close>

type_synonym HistogramMode = string
type_synonym NumberMode = string

definition HistogramModeNoBuckets :: HistogramMode where
  "HistogramModeNoBuckets = ''nobuckets''"

definition HistogramModeCounters :: HistogramMode where
  "HistogramModeCounters = ''counters''"

definition HistogramModeDistributions :: HistogramMode where
  "HistogramModeDistributions = ''distributions''"

definition NumberModeCumulativeToDelta :: NumberMode where
  "NumberModeCumulativeToDelta = ''cumulative_to_delta''"

definition NumberModeRawValue :: NumberMode where
  "NumberModeRawValue = ''raw_value''"

text \<open>
  \<open>struct translatorConfig\<close>. The type of \<open>fallbackSourceProvider\<close>
  (\<open>source.Provider\<close>, an interface of another package) is the parameter \<open>'p\<close>.
\<close>

record 'p translatorConfig =
  HistMode :: HistogramMode
  SendHistogramAggregations :: bool
  Quantiles :: bool
  SendMonotonic :: bool
  ResourceAttributesAsTags :: bool
  InstrumentationLibraryMetadataAsTags :: bool
  InstrumentationScopeMetadataAsTags :: bool
  sweepInterval :: int64
  deltaTTL :: int64
  fallbackSourceProvider :: 'p

text \<open>
  \<open>type TranslatorOption func(*translatorConfig) error\<close>: an option mutates the
  configuration behind the pointer and returns an error or \<open>nil\<close>. The model returns the
  error (\<open>None\<close> for \<open>nil\<close>) together with the configuration as the call leaves it.
\<close>

type_synonym 'p TranslatorOption =
  "'p translatorConfig \<Rightarrow> error option \<times> 'p translatorConfig"

definition WithDeltaTTL :: "int64 \<Rightarrow> 'p TranslatorOption" where
  "WithDeltaTTL ttl t =
     (if ttl \<le>s 0 then
        (Some (Errorf ''time to live must be positive: %d'' [ArgInt ttl]), t)
      else
        let t1 = t\<lparr>deltaTTL := ttl\<rparr>;
            t2 = t1\<lparr>sweepInterval := 1\<rparr>;
            t3 = (if 1 <s deltaTTL t2
                  then t2\<lparr>sweepInterval := int64_div (deltaTTL t2) 2\<rparr>
                  else t2)
        in (None, t3))"

definition WithFallbackSourceProvider :: "'p \<Rightarrow> 'p TranslatorOption" where
  "WithFallbackSourceProvider provider t = (None, t\<lparr>fallbackSourceProvider := provider\<rparr>)"

definition WithQuantiles :: "'p TranslatorOption" where
  "WithQuantiles t = (None, t\<lparr>Quantiles := True\<rparr>)"

definition WithResourceAttributesAsTags :: "'p TranslatorOption" where
  "WithResourceAttributesAsTags t = (None, t\<lparr>ResourceAttributesAsTags := True\<rparr>)"

definition WithInstrumentationLibraryMetadataAsTags :: "'p TranslatorOption" where
  "WithInstrumentationLibraryMetadataAsTags t =
     (None, t\<lparr>InstrumentationLibraryMetadataAsTags := True\<rparr>)"

definition WithInstrumentationScopeMetadataAsTags :: "'p TranslatorOption" where
  "WithInstrumentationScopeMetadataAsTags t =
     (None, t\<lparr>InstrumentationScopeMetadataAsTags := True\<rparr>)"

definition WithHistogramMode :: "HistogramMode \<Rightarrow> 'p TranslatorOption" where
  "WithHistogramMode mode t =
     (if mode = HistogramModeNoBuckets \<or> mode = HistogramModeCounters
         \<or> mode = HistogramModeDistributions
      then (None, t\<lparr>HistMode := mode\<rparr>)
      else (Some (Errorf ''unknown histogram mode: %q'' [ArgStr mode]), t))"

definition WithHistogramAggregations :: "'p TranslatorOption" where
  "WithHistogramAggregations t = (None, t\<lparr>SendHistogramAggregations := True\<rparr>)"

definition WithCountSumMetrics :: "'p TranslatorOption" where
  "WithCountSumMetrics = WithHistogramAggregations"

definition WithNumberMode :: "NumberMode \<Rightarrow> 'p TranslatorOption" where
  "WithNumberMode mode t =
     (if mode = NumberModeCumulativeToDelta then (None, t\<lparr>SendMonotonic := True\<rparr>)
      else if mode = NumberModeRawValue then (None, t\<lparr>SendMonotonic := False\<rparr>)
      else (Some (Errorf ''unknown number mode: %q'' [ArgStr mode]), t))"

text \<open>
  The options that config.go exports. \<open>translatorConfig\<close> is unexported, so no other
  package can write a \<open>TranslatorOption\<close> of its own: every option a caller can pass is
  one of these.
\<close>

inductive config_option :: "'p TranslatorOption \<Rightarrow> bool" where
  opt_DeltaTTL: "config_option (WithDeltaTTL ttl)"
| opt_FallbackSourceProvider: "config_option (WithFallbackSourceProvider p)"
| opt_Quantiles: "config_option WithQuantiles"
| opt_ResourceAttributesAsTags: "config_option WithResourceAttributesAsTags"
| opt_InstrumentationLibraryMetadataAsTags:
    "config_option WithInstrumentationLibraryMetadataAsTags"
| opt_InstrumentationScopeMetadataAsTags:
    "config_option WithInstrumentationScopeMetadataAsTags"
| opt_HistogramMode: "config_option (WithHistogramMode hm)"
| opt_CountSumMetrics: "config_option WithCountSumMetrics"
| opt_HistogramAggregations: "config_option WithHistogramAggregations"
| opt_NumberMode: "config_option (WithNumberMode nm)"

text \<open>A configuration to evaluate the options on.\<close>

definition sampleConfig :: "unit translatorConfig" where
  "sampleConfig =
     \<lparr>HistMode = HistogramModeDistributions, SendHistogramAggregations = False,
      Quantiles = False, SendMonotonic = True, ResourceAttributesAsTags = False,
      InstrumentationLibraryMetadataAsTags = False,
      InstrumentationScopeMetadataAsTags = False,
      sweepInterval = 1800, deltaTTL = 3600, fallbackSourceProvider = ()\<rparr>"

section \<open>Translator construction\<close>

text \<open>
  Modelled from the spec: the body of \<open>NewTranslator\<close> is not among the source files
  (its callers in mixed_metrics_test.go and the option type in config.go are). The spec
  says it "applies each option in order and fails construction if any option reports an
  invalid value", all-or-nothing: no translator is returned on error. The default
  configuration it starts from is not listed by the spec and is the parameter
  \<open>defaults\<close>; the logger plays no part in whether construction succeeds and is left
  out.
\<close>

record 'p Translator =
  cfg :: "'p translatorConfig"

fun applyOptions ::
  "'p translatorConfig \<Rightarrow> 'p TranslatorOption list \<Rightarrow> error + 'p translatorConfig" where
  "applyOptions c [] = Inr c"
| "applyOptions c (opt # options) =
     (case opt c of
        (Some err, _) \<Rightarrow> Inl err
      | (None, c') \<Rightarrow> applyOptions c' options)"

definition NewTranslator ::
  "'p translatorConfig \<Rightarrow> 'p TranslatorOption list \<Rightarrow> error + 'p Translator" where
  "NewTranslator defaults options =
     (case applyOptions defaults options of
        Inl err \<Rightarrow> Inl err
      | Inr c \<Rightarrow> Inr \<lparr>cfg = c\<rparr>)"

section \<open>DeltaCache\<close>

text \<open>
  Modelled from the spec: no cache code is among the source files. The spec (4.2) gives
  \<open>DeltaState = {lastValue, lastTimestamp, lastAccess}\<close> and the contract
  \<open>Compute(identity, timestamp, value) \<rightarrow> (delta, ok)\<close> with its four branches in order;
  \<open>lastAccess\<close> is refreshed on every lookup, hit or creation. The cache is a map from
  the series identity (any key type \<open>'k\<close>) to its state, passed in and returned; the
  current time that \<open>lastAccess\<close> takes is the parameter \<open>now\<close>. Instants are natural
  numbers. The values are \<open>float64\<close> in the spec; the model is parametric in their type
  \<open>'v\<close> and uses only its \<open><\<close> and \<open>-\<close>. The result \<open>(delta, ok)\<close> is \<open>Some delta\<close>
  when \<open>ok\<close> is true and \<open>None\<close> when it is false (the spec gives no delta then).
\<close>

record 'v DeltaState =
  lastValue :: 'v
  lastTimestamp :: nat
  lastAccess :: nat

type_synonym ('k, 'v) DeltaCache = "'k \<rightharpoonup> 'v DeltaState"

definition Compute ::
  "('k, 'v) DeltaCache \<Rightarrow> nat \<Rightarrow> 'k \<Rightarrow> nat \<Rightarrow> 'v::{ord,minus}
     \<Rightarrow> 'v option \<times> ('k, 'v) DeltaCache" where
  "Compute cache now identity timestamp v =
     (case cache identity of
        None \<Rightarrow>
          (None, cache(identity \<mapsto>
             \<lparr>lastValue = v, lastTimestamp = timestamp, lastAccess = now\<rparr>))
      | Some state \<Rightarrow>
          if timestamp \<le> lastTimestamp state then
            (None, cache(identity \<mapsto> state\<lparr>lastAccess := now\<rparr>))
          else if v < lastValue state then
            (Some v, cache(identity \<mapsto>
               state\<lparr>lastValue := v, lastTimestamp := timestamp, lastAccess := now\<rparr>))
          else
            (Some (v - lastValue state), cache(identity \<mapsto>
               state\<lparr>lastValue := v, lastTimestamp := timestamp, lastAccess := now\<rparr>)))"

text \<open>A cache holding one series, to evaluate \<open>Compute\<close> on.\<close>

definition sampleCache :: "(string, int) DeltaCache" where
  "sampleCache =
     [''system.cpu.time'' \<mapsto> \<lparr>lastValue = 10, lastTimestamp = 5, lastAccess = 6\<rparr>]"

section \<open>AttributeTagger: the origin identifier\<close>

text \<open>
  The attribute keys are constants of the imported OpenTelemetry semantic conventions
  package (\<open>go.opentelemetry.io/collector/semconv/v1.6.1\<close>), which the test names as
  \<open>conventions.AttributeContainerID\<close> and \<open>conventions.AttributeK8SPodUID\<close>.
\<close>

definition AttributeContainerID :: string where
  "AttributeContainerID = ''container.id''"

definition AttributeK8SPodUID :: string where
  "AttributeK8SPodUID = ''k8s.pod.uid''"

text \<open>
  Modelled from the spec: \<open>OriginIDFromAttributes\<close> is not among the source files (its
  test \<open>TestOriginIDFromAttributes\<close> is). The spec (4.4) gives the precedence: container
  ID present, then \<open>"container_id://<id>"\<close>; else pod UID present, then
  \<open>"kubernetes_pod_uid://<uid>"\<close>; else the empty string. The attribute set is a map
  from keys to the string form of their values.
\<close>

definition OriginIDFromAttributes :: "(string \<rightharpoonup> string) \<Rightarrow> string" where
  "OriginIDFromAttributes attrs =
     (case attrs AttributeContainerID of
        Some containerID \<Rightarrow> ''container_id://'' @ containerID
      | None \<Rightarrow>
          (case attrs AttributeK8SPodUID of
             Some podUID \<Rightarrow> ''kubernetes_pod_uid://'' @ podUID
           | None \<Rightarrow> ''''))"

section \<open>Properties of the options\<close>

lemma sint_int64_div_2:
  assumes "0 <s (ttl :: int64)"
  shows "sint (int64_div ttl 2) = sint ttl sdiv 2"
proof -
  have pos: "0 < sint ttl"
    using assms by (simp add: word_sless_alt)
  have up: "sint ttl < 2 ^ 63"
    using sint_lt [of ttl] by simp
  have "sint ttl sdiv 2 = sint ttl div 2"
    using pos by (simp add: signed_divide_int_def sgn_if)
  moreover have "0 \<le> sint ttl div 2" "sint ttl div 2 < 2 ^ 63"
    using pos up by simp_all
  ultimately show ?thesis
    by (simp add: int64_div_def sint_sbintrunc' signed_take_bit_int_eq_self)
qed

lemma config_option_keeps_deltaTTL_positive:
  assumes "config_option opt" and "0 <s deltaTTL t"
  shows "0 <s deltaTTL (snd (opt t))"
  using assms
  by (induction rule: config_option.induct)
     (simp_all add: WithDeltaTTL_def WithFallbackSourceProvider_def WithQuantiles_def
        WithResourceAttributesAsTags_def WithInstrumentationLibraryMetadataAsTags_def
        WithInstrumentationScopeMetadataAsTags_def WithHistogramMode_def
        WithCountSumMetrics_def WithHistogramAggregations_def WithNumberMode_def Let_def
        signed.not_le)

lemma WithDeltaTTL_accepts:
  assumes "0 <s ttl"
  shows "fst (WithDeltaTTL ttl t) = None"
    and "deltaTTL (snd (WithDeltaTTL ttl t)) = ttl"
    and "sint (sweepInterval (snd (WithDeltaTTL ttl t))) = max 1 (sint ttl sdiv 2)"
proof -
  have pos: "0 < sint ttl"
    using assms by (simp add: word_sless_alt)
  have notle: "\<not> ttl \<le>s 0"
    using pos by (simp add: word_sle_eq)
  have half: "sint ttl sdiv 2 = sint ttl div 2"
    using pos by (simp add: signed_divide_int_def sgn_if)
  show "fst (WithDeltaTTL ttl t) = None"
    using notle by (simp add: WithDeltaTTL_def Let_def)
  show "deltaTTL (snd (WithDeltaTTL ttl t)) = ttl"
    using notle by (simp add: WithDeltaTTL_def Let_def)
  show "sint (sweepInterval (snd (WithDeltaTTL ttl t))) = max 1 (sint ttl sdiv 2)"
  proof (cases "1 <s ttl")
    case True
    then have "1 < sint ttl" by (simp add: word_sless_alt)
    then have "max 1 (sint ttl sdiv 2) = sint ttl sdiv 2"
      using half by simp
    then show ?thesis
      using True notle sint_int64_div_2 [OF assms]
      by (simp add: WithDeltaTTL_def Let_def)
  next
    case False
    then have "sint ttl = 1" using pos by (simp add: word_sless_alt)
    then have "max 1 (sint ttl sdiv 2) = 1"
      by (simp add: signed_divide_int_def)
    then show ?thesis
      using False notle by (simp add: WithDeltaTTL_def Let_def)
  qed
qed

lemma config_option_keeps_ttl_invariant:
  assumes "config_option opt" and "fst (opt c) = None"
    and "0 <s deltaTTL c"
    and "sint (sweepInterval c) = max 1 (sint (deltaTTL c) sdiv 2)"
  shows "0 <s deltaTTL (snd (opt c))
         \<and> sint (sweepInterval (snd (opt c))) = max 1 (sint (deltaTTL (snd (opt c))) sdiv 2)"
  using assms
proof (induction rule: config_option.induct)
  case (opt_DeltaTTL ttl)
  from opt_DeltaTTL(1) have pos: "0 <s ttl"
    by (simp add: WithDeltaTTL_def signed.not_le split: if_splits)
  from WithDeltaTTL_accepts [OF pos, of c] pos show ?case by simp
qed (simp_all add: WithFallbackSourceProvider_def WithQuantiles_def
        WithResourceAttributesAsTags_def WithInstrumentationLibraryMetadataAsTags_def
        WithInstrumentationScopeMetadataAsTags_def WithHistogramMode_def
        WithCountSumMetrics_def WithHistogramAggregations_def WithNumberMode_def
      split: if_splits)

lemma WithDeltaTTL_success_positive:
  assumes "fst (WithDeltaTTL ttl c) = None"
  shows "0 <s ttl"
  using assms by (simp add: WithDeltaTTL_def signed.not_le split: if_splits)

lemma applyOptions_keeps_deltaTTL_positive:
  assumes "list_all config_option options" and "applyOptions c options = Inr c'"
    and "0 <s deltaTTL c"
  shows "0 <s deltaTTL c'"
  using assms
proof (induction options arbitrary: c)
  case Nil
  then show ?case by simp
next
  case (Cons opt options)
  obtain r c1 where step: "opt c = (r, c1)" by (cases "opt c")
  with Cons.prems(2) have r: "r = None" and rest: "applyOptions c1 options = Inr c'"
    by (auto split: option.splits)
  from Cons.prems(1) have co: "config_option opt" and cos: "list_all config_option options"
    by simp_all
  from config_option_keeps_deltaTTL_positive [OF co Cons.prems(3)] step
  have "0 <s deltaTTL c1" by simp
  from Cons.IH [OF cos rest this] show ?case .
qed

lemma applyOptions_keeps_ttl_invariant:
  assumes "list_all config_option options" and "applyOptions c options = Inr c'"
    and "0 <s deltaTTL c"
    and "sint (sweepInterval c) = max 1 (sint (deltaTTL c) sdiv 2)"
  shows "0 <s deltaTTL c' \<and> sint (sweepInterval c') = max 1 (sint (deltaTTL c') sdiv 2)"
  using assms
proof (induction options arbitrary: c)
  case Nil
  then show ?case by simp
next
  case (Cons opt options)
  obtain r c1 where step: "opt c = (r, c1)" by (cases "opt c")
  with Cons.prems(2) have r: "r = None" and rest: "applyOptions c1 options = Inr c'"
    by (auto split: option.splits)
  from Cons.prems(1) have co: "config_option opt" and cos: "list_all config_option options"
    by simp_all
  from step r have ok: "fst (opt c) = None" by simp
  from config_option_keeps_ttl_invariant [OF co ok Cons.prems(3) Cons.prems(4)] step
  have "0 <s deltaTTL c1" "sint (sweepInterval c1) = max 1 (sint (deltaTTL c1) sdiv 2)"
    by simp_all
  from Cons.IH [OF cos rest this] show ?case .
qed

lemma applyOptions_WithDeltaTTL_ttl_invariant:
  assumes "list_all config_option options" and "applyOptions c options = Inr c'"
    and "WithDeltaTTL ttl \<in> set options"
  shows "0 <s deltaTTL c' \<and> sint (sweepInterval c') = max 1 (sint (deltaTTL c') sdiv 2)"
  using assms
proof (induction options arbitrary: c)
  case Nil
  then show ?case by simp
next
  case (Cons opt options)
  obtain r c1 where step: "opt c = (r, c1)" by (cases "opt c")
  with Cons.prems(2) have r: "r = None" and rest: "applyOptions c1 options = Inr c'"
    by (auto split: option.splits)
  from Cons.prems(1) have co: "config_option opt" and cos: "list_all config_option options"
    by simp_all
  show ?case
  proof (cases "opt = WithDeltaTTL ttl")
    case True
    with step r have ok: "fst (WithDeltaTTL ttl c) = None" by simp
    then have pos: "0 <s ttl" by (rule WithDeltaTTL_success_positive)
    from WithDeltaTTL_accepts [OF pos, of c] pos True step
    have "0 <s deltaTTL c1" "sint (sweepInterval c1) = max 1 (sint (deltaTTL c1) sdiv 2)"
      by simp_all
    from applyOptions_keeps_ttl_invariant [OF cos rest this] show ?thesis .
  next
    case False
    with Cons.prems(3) have "WithDeltaTTL ttl \<in> set options" by simp
    from Cons.IH [OF cos rest this] show ?thesis .
  qed
qed

lemma NewTranslator_Inr:
  "NewTranslator defaults options = Inr tr \<Longrightarrow> applyOptions defaults options = Inr (cfg tr)"
  by (auto simp: NewTranslator_def split: sum.splits)

text \<open>
  C3. For every \<open>deltaTTL = T > 0\<close>, \<open>WithDeltaTTL T\<close> returns no error and stores
  \<open>deltaTTL = T\<close> and \<open>sweepInterval = max(1, T/2)\<close> (Go's truncating division, read
  as signed integers). \<open>deltaTTL\<close> stays strictly positive: every option of config.go,
  applied to a configuration whose \<open>deltaTTL\<close> is positive, leaves it positive, with or
  without error; and every construction that succeeds on options of config.go ends with
  a positive \<open>deltaTTL\<close>, either because the defaults it started from had one (the
  defaults are not in the sources; the doc comment of \<open>WithDeltaTTL\<close> gives 3600
  seconds) or because \<open>WithDeltaTTL\<close> is among its options. In the second case, and in
  the first when the defaults satisfy it, \<open>sweepInterval = max(1, deltaTTL/2)\<close> holds of
  the constructed configuration too.
\<close>

theorem WithDeltaTTL_sweepInterval:
  fixes t c defaults :: "'p translatorConfig" and options :: "'p TranslatorOption list"
  shows
  "(0 <s ttl \<longrightarrow>
      fst (WithDeltaTTL ttl t) = None
      \<and> deltaTTL (snd (WithDeltaTTL ttl t)) = ttl
      \<and> 0 <s deltaTTL (snd (WithDeltaTTL ttl t))
      \<and> sint (sweepInterval (snd (WithDeltaTTL ttl t))) = max 1 (sint ttl sdiv 2))
   \<and> (config_option opt \<longrightarrow> 0 <s deltaTTL c \<longrightarrow> 0 <s deltaTTL (snd (opt c)))
   \<and> (list_all config_option options \<longrightarrow> NewTranslator defaults options = Inr tr \<longrightarrow>
        (0 <s deltaTTL defaults \<longrightarrow> 0 <s deltaTTL (cfg tr))
        \<and> (0 <s deltaTTL defaults
             \<and> sint (sweepInterval defaults) = max 1 (sint (deltaTTL defaults) sdiv 2) \<longrightarrow>
             sint (sweepInterval (cfg tr)) = max 1 (sint (deltaTTL (cfg tr)) sdiv 2))
        \<and> (WithDeltaTTL ttl' \<in> set options \<longrightarrow>
             0 <s deltaTTL (cfg tr)
             \<and> sint (sweepInterval (cfg tr)) = max 1 (sint (deltaTTL (cfg tr)) sdiv 2)))"
proof (intro conjI impI)
  assume a: "0 <s ttl"
  show "fst (WithDeltaTTL ttl t) = None"
    using a by (rule WithDeltaTTL_accepts(1))
  show eq: "deltaTTL (snd (WithDeltaTTL ttl t)) = ttl"
    using a by (rule WithDeltaTTL_accepts(2))
  show "0 <s deltaTTL (snd (WithDeltaTTL ttl t))"
    using a eq by simp
  show "sint (sweepInterval (snd (WithDeltaTTL ttl t))) = max 1 (sint ttl sdiv 2)"
    using a by (rule WithDeltaTTL_accepts(3))
next
  assume "config_option opt" and "0 <s deltaTTL c"
  then show "0 <s deltaTTL (snd (opt c))"
    by (rule config_option_keeps_deltaTTL_positive)
next
  assume cos: "list_all config_option options"
    and "NewTranslator defaults options = Inr tr"
  then have run: "applyOptions defaults options = Inr (cfg tr)"
    by (simp add: NewTranslator_Inr)
  {
    assume "0 <s deltaTTL defaults"
    with cos run show "0 <s deltaTTL (cfg tr)"
      by (rule applyOptions_keeps_deltaTTL_positive)
  }
  {
    assume "0 <s deltaTTL defaults
             \<and> sint (sweepInterval defaults) = max 1 (sint (deltaTTL defaults) sdiv 2)"
    with applyOptions_keeps_ttl_invariant [OF cos run]
    show "sint (sweepInterval (cfg tr)) = max 1 (sint (deltaTTL (cfg tr)) sdiv 2)"
      by simp
  }
  {
    assume m: "WithDeltaTTL ttl' \<in> set options"
    from applyOptions_WithDeltaTTL_ttl_invariant [OF cos run m]
    show "0 <s deltaTTL (cfg tr)"
      and "sint (sweepInterval (cfg tr)) = max 1 (sint (deltaTTL (cfg tr)) sdiv 2)"
      by simp_all
  }
qed

theorem WithDeltaTTL_sweepInterval_witness:
  "(0::int64) <s 7
   \<and> fst (WithDeltaTTL 7 sampleConfig) = None
   \<and> deltaTTL (snd (WithDeltaTTL 7 sampleConfig)) = 7
   \<and> sint (sweepInterval (snd (WithDeltaTTL 7 sampleConfig))) = 3
   \<and> (0::int64) <s 1
   \<and> sint (sweepInterval (snd (WithDeltaTTL 1 sampleConfig))) = 1
   \<and> config_option (WithQuantiles :: unit TranslatorOption)
   \<and> 0 <s deltaTTL sampleConfig
   \<and> sint (sweepInterval sampleConfig) = max 1 (sint (deltaTTL sampleConfig) sdiv 2)
   \<and> 0 <s deltaTTL (snd (WithQuantiles sampleConfig))
   \<and> list_all config_option [WithQuantiles, WithDeltaTTL 7 :: unit TranslatorOption]
   \<and> NewTranslator sampleConfig [WithQuantiles, WithDeltaTTL 7]
       = Inr \<lparr>cfg = sampleConfig\<lparr>Quantiles := True, deltaTTL := 7, sweepInterval := 3\<rparr>\<rparr>
   \<and> WithDeltaTTL 7 \<in> set [WithQuantiles, WithDeltaTTL 7 :: unit TranslatorOption]
   \<and> 0 <s deltaTTL (sampleConfig\<lparr>Quantiles := True, deltaTTL := 7, sweepInterval := 3\<rparr>)
   \<and> sint (sweepInterval (sampleConfig\<lparr>Quantiles := True, deltaTTL := 7, sweepInterval := 3\<rparr>))
       = max 1 (sint (deltaTTL (sampleConfig\<lparr>Quantiles := True, deltaTTL := 7,
                                   sweepInterval := 3\<rparr>)) sdiv 2)"
proof -
  have h1: "(0::int64) <s 7" "(0::int64) <s 1"
    by (simp_all add: word_sless_alt)
  have h2: "config_option (WithQuantiles :: unit TranslatorOption)"
    by (rule opt_Quantiles)
  have h3: "0 <s deltaTTL sampleConfig"
    by (simp add: sampleConfig_def word_sless_alt)
  have h4: "sint (sweepInterval sampleConfig) = max 1 (sint (deltaTTL sampleConfig) sdiv 2)"
    by (simp add: sampleConfig_def signed_divide_int_def)
  have h5: "list_all config_option [WithQuantiles, WithDeltaTTL 7 :: unit TranslatorOption]"
    by (simp add: opt_Quantiles opt_DeltaTTL)
  have h6: "NewTranslator sampleConfig [WithQuantiles, WithDeltaTTL 7]
       = Inr \<lparr>cfg = sampleConfig\<lparr>Quantiles := True, deltaTTL := 7, sweepInterval := 3\<rparr>\<rparr>"
    by (simp add: NewTranslator_def WithQuantiles_def WithDeltaTTL_def Let_def
        int64_div_def signed_divide_int_def word_sless_alt word_sle_eq)
  from WithDeltaTTL_sweepInterval
         [where ttl = 7 and t = sampleConfig and opt = WithQuantiles and c = sampleConfig
            and options = "[WithQuantiles, WithDeltaTTL 7]" and defaults = sampleConfig
            and tr = "\<lparr>cfg = sampleConfig\<lparr>Quantiles := True, deltaTTL := 7,
                                          sweepInterval := 3\<rparr>\<rparr>"
            and ttl' = 7]
       WithDeltaTTL_sweepInterval
         [where ttl = 1 and t = sampleConfig and opt = WithQuantiles and c = sampleConfig
            and options = "[]" and defaults = sampleConfig]
       h1 h2 h3 h4 h5 h6
  show ?thesis by (simp add: signed_divide_int_def)
qed

lemma applyOptions_fails:
  assumes "opt \<in> set options" and "\<And>c. fst (opt c) \<noteq> None"
  shows "\<exists>e. applyOptions c options = Inl e"
  using assms(1)
proof (induction options arbitrary: c)
  case Nil
  then show ?case by simp
next
  case (Cons o1 options)
  show ?case
  proof (cases "o1 c")
    case (Pair r c')
    show ?thesis
    proof (cases r)
      case (Some e)
      with Pair show ?thesis by simp
    next
      case None
      with Pair assms(2) [of c] have "opt \<noteq> o1" by auto
      with Cons.prems have "opt \<in> set options" by simp
      from Cons.IH [OF this] Pair None show ?thesis by simp
    qed
  qed
qed

lemma NewTranslator_fails:
  assumes "opt \<in> set options" and "\<And>c. fst (opt c) \<noteq> None"
  shows "\<exists>e. NewTranslator defaults options = Inl e"
  using applyOptions_fails [OF assms, of defaults]
  by (auto simp: NewTranslator_def)

text \<open>
  C4. \<open>WithDeltaTTL\<close> with \<open>deltaTTL \<le> 0\<close>, \<open>WithHistogramMode\<close> with a string other
  than "nobuckets", "counters", "distributions", and \<open>WithNumberMode\<close> with a string
  other than "cumulative_to_delta", "raw_value" each return an error (leaving the
  configuration as it was), and a construction whose option list holds such an option
  fails: \<open>NewTranslator\<close> returns an error and no translator.
\<close>

theorem invalid_options_fail_construction:
  fixes t defaults :: "'p translatorConfig" and options :: "'p TranslatorOption list"
  shows
  "(ttl \<le>s 0 \<longrightarrow>
      (\<exists>e. WithDeltaTTL ttl t = (Some e, t))
      \<and> (WithDeltaTTL ttl \<in> set options \<longrightarrow> (\<exists>e. NewTranslator defaults options = Inl e)))
   \<and> (hm \<notin> {''nobuckets'', ''counters'', ''distributions''} \<longrightarrow>
      (\<exists>e. WithHistogramMode hm t = (Some e, t))
      \<and> (WithHistogramMode hm \<in> set options \<longrightarrow> (\<exists>e. NewTranslator defaults options = Inl e)))
   \<and> (nm \<notin> {''cumulative_to_delta'', ''raw_value''} \<longrightarrow>
      (\<exists>e. WithNumberMode nm t = (Some e, t))
      \<and> (WithNumberMode nm \<in> set options \<longrightarrow> (\<exists>e. NewTranslator defaults options = Inl e)))"
proof (intro conjI impI)
  assume a: "ttl \<le>s 0"
  then show "\<exists>e. WithDeltaTTL ttl t = (Some e, t)"
    by (simp add: WithDeltaTTL_def)
  assume "WithDeltaTTL ttl \<in> set options"
  moreover have "\<And>c :: 'p translatorConfig. fst (WithDeltaTTL ttl c) \<noteq> None"
    using a by (simp add: WithDeltaTTL_def)
  ultimately show "\<exists>e. NewTranslator defaults options = Inl e"
    by (rule NewTranslator_fails)
next
  assume a: "hm \<notin> {''nobuckets'', ''counters'', ''distributions''}"
  then show "\<exists>e. WithHistogramMode hm t = (Some e, t)"
    by (simp add: WithHistogramMode_def HistogramModeNoBuckets_def
        HistogramModeCounters_def HistogramModeDistributions_def)
  assume "WithHistogramMode hm \<in> set options"
  moreover have "\<And>c :: 'p translatorConfig. fst (WithHistogramMode hm c) \<noteq> None"
    using a by (simp add: WithHistogramMode_def HistogramModeNoBuckets_def
        HistogramModeCounters_def HistogramModeDistributions_def)
  ultimately show "\<exists>e. NewTranslator defaults options = Inl e"
    by (rule NewTranslator_fails)
next
  assume a: "nm \<notin> {''cumulative_to_delta'', ''raw_value''}"
  then show "\<exists>e. WithNumberMode nm t = (Some e, t)"
    by (simp add: WithNumberMode_def NumberModeCumulativeToDelta_def NumberModeRawValue_def)
  assume "WithNumberMode nm \<in> set options"
  moreover have "\<And>c :: 'p translatorConfig. fst (WithNumberMode nm c) \<noteq> None"
    using a by (simp add: WithNumberMode_def NumberModeCumulativeToDelta_def
        NumberModeRawValue_def)
  ultimately show "\<exists>e. NewTranslator defaults options = Inl e"
    by (rule NewTranslator_fails)
qed

theorem invalid_options_fail_construction_witness:
  "(0::int64) \<le>s 0
   \<and> WithDeltaTTL 0 sampleConfig =
       (Some (Errorf ''time to live must be positive: %d'' [ArgInt 0]), sampleConfig)
   \<and> (\<exists>e. NewTranslator sampleConfig [WithQuantiles, WithDeltaTTL 0] = Inl e)
   \<and> ''buckets'' \<notin> {''nobuckets'', ''counters'', ''distributions''}
   \<and> WithHistogramMode ''buckets'' sampleConfig =
       (Some (Errorf ''unknown histogram mode: %q'' [ArgStr ''buckets'']), sampleConfig)
   \<and> (\<exists>e. NewTranslator sampleConfig [WithHistogramMode ''buckets'', WithQuantiles] = Inl e)
   \<and> ''delta'' \<notin> {''cumulative_to_delta'', ''raw_value''}
   \<and> WithNumberMode ''delta'' sampleConfig =
       (Some (Errorf ''unknown number mode: %q'' [ArgStr ''delta'']), sampleConfig)
   \<and> (\<exists>e. NewTranslator sampleConfig [WithNumberMode ''delta''] = Inl e)"
proof -
  have h1: "(0::int64) \<le>s 0" by simp
  have h2: "''buckets'' \<notin> {''nobuckets'', ''counters'', ''distributions''}" by simp
  have h3: "''delta'' \<notin> {''cumulative_to_delta'', ''raw_value''}" by simp
  have e1: "WithDeltaTTL 0 sampleConfig =
       (Some (Errorf ''time to live must be positive: %d'' [ArgInt 0]), sampleConfig)"
    by (simp add: WithDeltaTTL_def)
  have e2: "WithHistogramMode ''buckets'' sampleConfig =
       (Some (Errorf ''unknown histogram mode: %q'' [ArgStr ''buckets'']), sampleConfig)"
    by (simp add: WithHistogramMode_def HistogramModeNoBuckets_def
        HistogramModeCounters_def HistogramModeDistributions_def)
  have e3: "WithNumberMode ''delta'' sampleConfig =
       (Some (Errorf ''unknown number mode: %q'' [ArgStr ''delta'']), sampleConfig)"
    by (simp add: WithNumberMode_def NumberModeCumulativeToDelta_def NumberModeRawValue_def)
  from invalid_options_fail_construction
         [where ttl = 0 and t = sampleConfig and defaults = sampleConfig
            and options = "[WithQuantiles, WithDeltaTTL 0]"]
       invalid_options_fail_construction
         [where hm = "''buckets''" and t = sampleConfig and defaults = sampleConfig
            and options = "[WithHistogramMode ''buckets'', WithQuantiles]"]
       invalid_options_fail_construction
         [where nm = "''delta''" and t = sampleConfig and defaults = sampleConfig
            and options = "[WithNumberMode ''delta'']"]
       h1 h2 h3 e1 e2 e3
  show ?thesis by simp
qed

text \<open>
  C5. \<open>WithNumberMode\<close> maps the number mode into \<open>SendMonotonic\<close>:
  \<open>"cumulative_to_delta"\<close> sets it to true, \<open>"raw_value"\<close> sets it to false, and in both
  cases no error is returned (and no other field changes).
\<close>

theorem WithNumberMode_sets_SendMonotonic:
  "WithNumberMode ''cumulative_to_delta'' t = (None, t\<lparr>SendMonotonic := True\<rparr>)
   \<and> WithNumberMode ''raw_value'' t = (None, t\<lparr>SendMonotonic := False\<rparr>)"
  by (simp add: WithNumberMode_def NumberModeCumulativeToDelta_def NumberModeRawValue_def)

text \<open>
  C10. The deprecated \<open>WithCountSumMetrics\<close> is the same option as
  \<open>WithHistogramAggregations\<close>: on every configuration both set
  \<open>SendHistogramAggregations\<close> to true, change no other field and return no error.
\<close>

theorem WithCountSumMetrics_eq_WithHistogramAggregations:
  "(WithCountSumMetrics :: 'p TranslatorOption) = WithHistogramAggregations
   \<and> WithCountSumMetrics t = (None, t\<lparr>SendHistogramAggregations := True\<rparr>)
   \<and> WithHistogramAggregations t = (None, t\<lparr>SendHistogramAggregations := True\<rparr>)"
  by (simp add: WithCountSumMetrics_def WithHistogramAggregations_def)

section \<open>Properties of the cache\<close>

text \<open>
  C2. For an identity with a stored state, a call of \<open>Compute\<close> whose timestamp is not
  strictly greater than the stored \<open>lastTimestamp\<close> returns \<open>ok = false\<close> and leaves the
  stored \<open>lastValue\<close> and \<open>lastTimestamp\<close> of that identity as they were; the other
  identities keep their entries.
\<close>

theorem Compute_stale_point:
  assumes "cache identity = Some state" and "timestamp \<le> lastTimestamp state"
  shows "fst (Compute cache now identity timestamp v) = None
         \<and> (\<exists>state'. snd (Compute cache now identity timestamp v) identity = Some state'
               \<and> lastValue state' = lastValue state
               \<and> lastTimestamp state' = lastTimestamp state)
         \<and> (\<forall>k. k \<noteq> identity \<longrightarrow> snd (Compute cache now identity timestamp v) k = cache k)"
  using assms by (simp add: Compute_def)

theorem Compute_stale_point_witness:
  "sampleCache ''system.cpu.time'' = Some \<lparr>lastValue = 10, lastTimestamp = 5, lastAccess = 6\<rparr>
   \<and> (5::nat) \<le> lastTimestamp \<lparr>lastValue = 10::int, lastTimestamp = 5, lastAccess = 6\<rparr>
   \<and> fst (Compute sampleCache 9 ''system.cpu.time'' 5 3) = None
   \<and> snd (Compute sampleCache 9 ''system.cpu.time'' 5 3) ''system.cpu.time''
       = Some \<lparr>lastValue = 10, lastTimestamp = 5, lastAccess = 9\<rparr>"
proof -
  have h1: "sampleCache ''system.cpu.time''
              = Some \<lparr>lastValue = 10, lastTimestamp = 5, lastAccess = 6\<rparr>"
    by (simp add: sampleCache_def)
  have h2: "(5::nat) \<le> lastTimestamp \<lparr>lastValue = 10::int, lastTimestamp = 5, lastAccess = 6\<rparr>"
    by simp
  have e: "snd (Compute sampleCache 9 ''system.cpu.time'' 5 3) ''system.cpu.time''
       = Some \<lparr>lastValue = 10, lastTimestamp = 5, lastAccess = 9\<rparr>"
    by (simp add: Compute_def sampleCache_def)
  from Compute_stale_point
         [where cache = sampleCache and identity = "''system.cpu.time''" and timestamp = 5
            and state = "\<lparr>lastValue = 10, lastTimestamp = 5, lastAccess = 6\<rparr>"
            and now = 9 and v = 3]
       h1 h2 e
  show ?thesis by simp
qed

section \<open>Properties of the origin identifier\<close>

text \<open>
  C6. \<open>OriginIDFromAttributes\<close> follows a strict precedence: with a container ID
  present, whether or not a pod UID is too, the result is \<open>"container_id://<id>"\<close>;
  without a container ID but with a pod UID it is \<open>"kubernetes_pod_uid://<uid>"\<close>; with
  neither it is the empty string. The witness runs the four cases of
  \<open>TestOriginIDFromAttributes\<close>.
\<close>

theorem OriginIDFromAttributes_precedence:
  "(attrs ''container.id'' = Some containerID \<longrightarrow>
      OriginIDFromAttributes attrs = ''container_id://'' @ containerID)
   \<and> (attrs ''container.id'' = None \<and> attrs ''k8s.pod.uid'' = Some podUID \<longrightarrow>
      OriginIDFromAttributes attrs = ''kubernetes_pod_uid://'' @ podUID)
   \<and> (attrs ''container.id'' = None \<and> attrs ''k8s.pod.uid'' = None \<longrightarrow>
      OriginIDFromAttributes attrs = '''')"
  by (simp add: OriginIDFromAttributes_def AttributeContainerID_def AttributeK8SPodUID_def)

theorem OriginIDFromAttributes_precedence_witness:
  "OriginIDFromAttributes
     [''container.id'' \<mapsto> ''container_id_goes_here'', ''k8s.pod.uid'' \<mapsto> ''k8s_pod_uid_goes_here'']
     = ''container_id://container_id_goes_here''
   \<and> OriginIDFromAttributes [''container.id'' \<mapsto> ''container_id_goes_here'']
     = ''container_id://container_id_goes_here''
   \<and> OriginIDFromAttributes [''k8s.pod.uid'' \<mapsto> ''k8s_pod_uid_goes_here'']
     = ''kubernetes_pod_uid://k8s_pod_uid_goes_here''
   \<and> OriginIDFromAttributes Map.empty = ''''"
  using
    OriginIDFromAttributes_precedence
      [where attrs = "[''container.id'' \<mapsto> ''container_id_goes_here'',
                       ''k8s.pod.uid'' \<mapsto> ''k8s_pod_uid_goes_here'']"
         and containerID = "''container_id_goes_here''"]
    OriginIDFromAttributes_precedence
      [where attrs = "[''container.id'' \<mapsto> ''container_id_goes_here'']"
         and containerID = "''container_id_goes_here''"]
    OriginIDFromAttributes_precedence
      [where attrs = "[''k8s.pod.uid'' \<mapsto> ''k8s_pod_uid_goes_here'']"
         and podUID = "''k8s_pod_uid_goes_here''"]
    OriginIDFromAttributes_precedence [where attrs = "Map.empty"]
  by simp

end
